theory Spec2Isabelle
  imports Main
begin

section \<open>Domain model (package api)\<close>

text \<open>
  The two resources of the service. Both are Go structs with two string fields; the
  zero value of a Go string is the empty string.
\<close>

record Volunteer =
  Email :: string
  Password :: string

record Team =
  ID :: string
  Name :: string

text \<open>
  Failures of the database layer as the relational store sees them: the sentinel
  \<open>sql.ErrNoRows\<close>, a \<open>*pq.Error\<close> carrying the name of its error code, and a failed
  scan of a column into a Go value.
\<close>

datatype db_error = SqlErrNoRows | PqError string | ScanError

text \<open>
  The three sentinel errors of package api, the wrapped query error produced by
  \<open>errors.Wrap(err, "failed to execute database query")\<close>, and the run-time panic of a
  nil pointer dereference (not an error value in Go, but an outcome of a call all the
  same).
\<close>

datatype error =
    ErrPasswordMismatch
  | ErrAlreadyExists
  | ErrNotFound
  | ErrQueryFailed db_error
  | PanicNilPointer

text \<open>
  A Go slice is either nil or a (possibly empty) sequence; \<open>len\<close> and \<open>range\<close> treat
  the nil slice as empty, JSON encoding does not.
\<close>

datatype 'a slice = NilSlice | Slice "'a list"

fun elems :: "'a slice \<Rightarrow> 'a list" where
  "elems NilSlice = []"
| "elems (Slice xs) = xs"

text \<open>Go's \<open>append(s, x)\<close>: appending to the nil slice allocates.\<close>

fun append_slice :: "'a slice \<Rightarrow> 'a \<Rightarrow> 'a slice" where
  "append_slice NilSlice x = Slice [x]"
| "append_slice (Slice xs) x = Slice (xs @ [x])"


section \<open>The in-memory store (package memorystore)\<close>

text \<open>
  The struct \<open>Store\<close>: three Go maps. The inner map \<open>map[string]struct{}\<close> of
  \<open>teamMembers\<close> is a set of emails; it is kept as the list of its keys, in the order
  one iteration over it yields them (Go leaves that order unspecified). The maps hold
  pointers to the values handed in by the caller; the handlers never write through those
  pointers after the call, so the pointed-to values are stored by value here. The mutex
  \<open>mu\<close> is the subject of the lock protocol further down.
\<close>

record Store =
  volunteers :: "string \<rightharpoonup> Volunteer"
  teams :: "string \<rightharpoonup> Team"
  teamMembers :: "string \<rightharpoonup> string list"

definition New :: Store where
  "New = \<lparr>volunteers = Map.empty, teams = Map.empty, teamMembers = Map.empty\<rparr>"

text \<open>
  Every mutating method returns the Go error (\<open>None\<close> for \<open>nil\<close>) together with the
  store as the call leaves it, so that what an erroring call did to the maps stays
  visible.
\<close>

definition AuthenticateOrCreateVolunteerAccount ::
  "Store \<Rightarrow> Volunteer \<Rightarrow> error option \<times> Store" where
  "AuthenticateOrCreateVolunteerAccount s volunteer =
     (case volunteers s (Email volunteer) of
        None \<Rightarrow> (None, s\<lparr>volunteers := (volunteers s)(Email volunteer \<mapsto> volunteer)\<rparr>)
      | Some v \<Rightarrow>
          if Password v \<noteq> Password volunteer then (Some ErrPasswordMismatch, s)
          else (None, s))"

definition GetVolunteerByEmail :: "Store \<Rightarrow> string \<Rightarrow> error + Volunteer" where
  "GetVolunteerByEmail s email =
     (case volunteers s email of
        None \<Rightarrow> Inl ErrNotFound
      | Some v \<Rightarrow> Inr (v\<lparr>Password := ''''\<rparr>))"

definition CreateTeam :: "Store \<Rightarrow> Team \<Rightarrow> error option \<times> Store" where
  "CreateTeam s team =
     (if teams s (ID team) \<noteq> None then (Some ErrAlreadyExists, s)
      else (None, s\<lparr>teams := (teams s)(ID team \<mapsto> team)\<rparr>))"

definition GetTeamByID :: "Store \<Rightarrow> string \<Rightarrow> error + Team" where
  "GetTeamByID s teamID =
     (case teams s teamID of
        None \<Rightarrow> Inl ErrNotFound
      | Some t \<Rightarrow> Inr t)"

text \<open>
  \<open>AddTeamMember\<close>: after the two existence checks, the branch for an existing member
  set inserts the email into that set and then falls through to the assignment that
  follows the \<open>if\<close>, which stores a fresh one-element set for the team.
\<close>

definition AddTeamMember :: "Store \<Rightarrow> string \<Rightarrow> string \<Rightarrow> error option \<times> Store" where
  "AddTeamMember s teamID email =
     (if teams s teamID = None then (Some ErrNotFound, s)
      else if volunteers s email = None then (Some ErrNotFound, s)
      else
        (case teamMembers s teamID of
           Some members \<Rightarrow>
             if email \<in> set members then (Some ErrAlreadyExists, s)
             else
               let s1 = s\<lparr>teamMembers := (teamMembers s)(teamID \<mapsto> List.insert email members)\<rparr>
               in (None, s1\<lparr>teamMembers := (teamMembers s1)(teamID \<mapsto> [email])\<rparr>)
         | None \<Rightarrow> (None, s\<lparr>teamMembers := (teamMembers s)(teamID \<mapsto> [email])\<rparr>)))"

text \<open>
  The loop of \<open>ListTeamMembers\<close>: for each email of the set, dereference the stored
  volunteer (a nil pointer when the email is not registered), blank the password of the
  copy and append it.
\<close>

fun appendMembers ::
  "(string \<rightharpoonup> Volunteer) \<Rightarrow> string list \<Rightarrow> Volunteer list \<Rightarrow> error + Volunteer list" where
  "appendMembers vs [] acc = Inr acc"
| "appendMembers vs (email # rest) acc =
     (case vs email of
        None \<Rightarrow> Inl PanicNilPointer
      | Some v \<Rightarrow> appendMembers vs rest (acc @ [v\<lparr>Password := ''''\<rparr>]))"

definition ListTeamMembers :: "Store \<Rightarrow> string \<Rightarrow> error + Volunteer slice" where
  "ListTeamMembers s teamID =
     (if teams s teamID = None then Inl ErrNotFound
      else
        let emailSet = (case teamMembers s teamID of None \<Rightarrow> [] | Some m \<Rightarrow> m)
        in (case appendMembers (volunteers s) emailSet [] of
              Inl e \<Rightarrow> Inl e
            | Inr vs \<Rightarrow> Inr (Slice vs)))"

definition RemoveTeamMember :: "Store \<Rightarrow> string \<Rightarrow> string \<Rightarrow> error option \<times> Store" where
  "RemoveTeamMember s teamID email =
     (if teams s teamID = None then (Some ErrNotFound, s)
      else
        (case teamMembers s teamID of
           None \<Rightarrow> (Some ErrNotFound, s)
         | Some members \<Rightarrow>
             if email \<notin> set members then (Some ErrNotFound, s)
             else (None, s\<lparr>teamMembers := (teamMembers s)(teamID \<mapsto> removeAll email members)\<rparr>)))"

text \<open>
  \<open>CountTeamMembers\<close>: one entry per key of \<open>teamMembers\<close>, holding \<open>len\<close> of its
  set. The error result is always nil.
\<close>

definition CountTeamMembers :: "Store \<Rightarrow> (string \<rightharpoonup> int)" where
  "CountTeamMembers s = (\<lambda>k. map_option (\<lambda>v. int (length v)) (teamMembers s k))"


text \<open>
  The mutating calls of the Store interface, to speak about what a store looks like
  after any further traffic: each request runs one call, and a failed call does not
  stop later requests. The reading calls change nothing and are left out.
\<close>

datatype call =
    AuthenticateOrCreateCall Volunteer
  | CreateTeamCall Team
  | AddTeamMemberCall string string
  | RemoveTeamMemberCall string string

fun run_call :: "Store \<Rightarrow> call \<Rightarrow> error option \<times> Store" where
  "run_call s (AuthenticateOrCreateCall v) = AuthenticateOrCreateVolunteerAccount s v"
| "run_call s (CreateTeamCall t) = CreateTeam s t"
| "run_call s (AddTeamMemberCall teamID email) = AddTeamMember s teamID email"
| "run_call s (RemoveTeamMemberCall teamID email) = RemoveTeamMember s teamID email"

fun run_calls :: "Store \<Rightarrow> call list \<Rightarrow> Store" where
  "run_calls s [] = s"
| "run_calls s (c # cs) = run_calls (snd (run_call s c)) cs"


section \<open>The relational store (package postgrestore)\<close>

text \<open>
  The schema of \<open>1_init.up.sql\<close>: \<open>volunteers(email PRIMARY KEY, password NOT NULL)\<close>,
  \<open>teams(id PRIMARY KEY, name)\<close> with a nullable name, and
  \<open>team_members(volunteer_email, team_id)\<close> with primary key
  \<open>(team_id, volunteer_email)\<close> and a foreign key to each parent. A table with a
  primary key is a map from the key to the other columns; \<open>team_members\<close> has key
  columns only and is the list of its rows \<open>(team_id, volunteer_email)\<close>. The connection
  is taken to be healthy and every Go string to be a value a text column accepts: a
  statement fails only by the constraint or the empty result that its text can run
  into, and a failed statement leaves the tables as they were.
\<close>

record Database =
  volunteers_tbl :: "string \<rightharpoonup> string"
  teams_tbl :: "string \<rightharpoonup> string option"
  team_members_tbl :: "(string \<times> string) list"

definition empty_db :: Database where
  "empty_db = \<lparr>volunteers_tbl = Map.empty, teams_tbl = Map.empty, team_members_tbl = []\<rparr>"

text \<open>
  \<open>queryError\<close>: \<open>sql.ErrNoRows\<close> becomes \<open>ErrNotFound\<close>, anything else is wrapped.
\<close>

definition queryError :: "db_error \<Rightarrow> error" where
  "queryError err = (if err = SqlErrNoRows then ErrNotFound else ErrQueryFailed err)"

text \<open>
  The statement of \<open>AuthenticateOrCreateVolunteerAccount\<close>, read with \<open>GetContext\<close>:
  \<^verbatim>\<open>INSERT INTO volunteers (email, password) VALUES ($1, crypt($2, gen_salt('md5')))
  ON CONFLICT (email) DO UPDATE SET email = EXCLUDED.email
  RETURNING volunteers.password = crypt($2, volunteers.password)\<close>
  The functions of the pgcrypto extension are not part of the repository: \<open>crypt\<close> is a
  parameter, and \<open>salt\<close> is what this call of \<open>gen_salt\<close> returns. On a conflict the
  row is rewritten with the email it already has. The statement always returns one row.
\<close>

definition sql_upsert_volunteer ::
  "(string \<Rightarrow> string \<Rightarrow> string) \<Rightarrow> string \<Rightarrow> Database \<Rightarrow> string \<Rightarrow> string
     \<Rightarrow> db_error + bool \<times> Database" where
  "sql_upsert_volunteer crypt salt db email password =
     (case volunteers_tbl db email of
        None \<Rightarrow>
          let stored = crypt password salt
          in Inr (stored = crypt password stored,
                  db\<lparr>volunteers_tbl := (volunteers_tbl db)(email \<mapsto> stored)\<rparr>)
      | Some stored \<Rightarrow>
          Inr (stored = crypt password stored,
               db\<lparr>volunteers_tbl := (volunteers_tbl db)(email \<mapsto> stored)\<rparr>))"

definition pg_AuthenticateOrCreateVolunteerAccount ::
  "(string \<Rightarrow> string \<Rightarrow> string) \<Rightarrow> string \<Rightarrow> Database \<Rightarrow> Volunteer
     \<Rightarrow> error option \<times> Database" where
  "pg_AuthenticateOrCreateVolunteerAccount crypt salt db volunteer =
     (case sql_upsert_volunteer crypt salt db (Email volunteer) (Password volunteer) of
        Inl err \<Rightarrow> (Some (queryError err), db)
      | Inr (authenticated, db') \<Rightarrow>
          if \<not> authenticated then (Some ErrPasswordMismatch, db')
          else (None, db'))"

text \<open>\<^verbatim>\<open>SELECT * FROM volunteers WHERE email = $1\<close>, read with \<open>GetContext\<close>.\<close>

definition sql_select_volunteer :: "Database \<Rightarrow> string \<Rightarrow> db_error + Volunteer" where
  "sql_select_volunteer db email =
     (case volunteers_tbl db email of
        None \<Rightarrow> Inl SqlErrNoRows
      | Some pw \<Rightarrow> Inr \<lparr>Email = email, Password = pw\<rparr>)"

definition pg_GetVolunteerByEmail :: "Database \<Rightarrow> string \<Rightarrow> error + Volunteer" where
  "pg_GetVolunteerByEmail db email =
     (case sql_select_volunteer db email of
        Inl err \<Rightarrow> Inl (queryError err)
      | Inr volunteer \<Rightarrow> Inr (volunteer\<lparr>Password := ''''\<rparr>))"

text \<open>\<^verbatim>\<open>INSERT INTO teams (id, name) VALUES ($1, $2)\<close>, run with \<open>ExecContext\<close>.\<close>

definition sql_insert_team :: "Database \<Rightarrow> string \<Rightarrow> string \<Rightarrow> db_error + Database" where
  "sql_insert_team db team_id team_name =
     (if teams_tbl db team_id \<noteq> None then Inl (PqError ''unique_violation'')
      else Inr (db\<lparr>teams_tbl := (teams_tbl db)(team_id \<mapsto> Some team_name)\<rparr>))"

definition pg_CreateTeam :: "Database \<Rightarrow> Team \<Rightarrow> error option \<times> Database" where
  "pg_CreateTeam db team =
     (case sql_insert_team db (ID team) (Name team) of
        Inl err \<Rightarrow>
          (case err of
             PqError code \<Rightarrow>
               if code = ''unique_violation'' then (Some ErrAlreadyExists, db)
               else (Some (queryError err), db)
           | _ \<Rightarrow> (Some (queryError err), db))
      | Inr db' \<Rightarrow> (None, db'))"

text \<open>
  \<^verbatim>\<open>SELECT * FROM teams WHERE id = $1\<close>, read with \<open>GetContext\<close> into a struct whose
  \<open>Name\<close> is a Go string: a NULL name does not scan.
\<close>

definition sql_select_team :: "Database \<Rightarrow> string \<Rightarrow> db_error + Team" where
  "sql_select_team db team_id =
     (case teams_tbl db team_id of
        None \<Rightarrow> Inl SqlErrNoRows
      | Some None \<Rightarrow> Inl ScanError
      | Some (Some team_name) \<Rightarrow> Inr \<lparr>ID = team_id, Name = team_name\<rparr>)"

definition pg_GetTeamByID :: "Database \<Rightarrow> string \<Rightarrow> error + Team" where
  "pg_GetTeamByID db teamID =
     (case sql_select_team db teamID of
        Inl err \<Rightarrow> Inl (queryError err)
      | Inr team \<Rightarrow> Inr team)"

text \<open>
  \<^verbatim>\<open>INSERT INTO team_members (team_id, volunteer_email) VALUES ($1, $2)\<close>, run with
  \<open>ExecContext\<close>. The primary key is checked when the row goes in, the two foreign keys
  afterwards.
\<close>

definition sql_insert_team_member ::
  "Database \<Rightarrow> string \<Rightarrow> string \<Rightarrow> db_error + Database" where
  "sql_insert_team_member db team_id email =
     (if (team_id, email) \<in> set (team_members_tbl db) then Inl (PqError ''unique_violation'')
      else if teams_tbl db team_id = None then Inl (PqError ''foreign_key_violation'')
      else if volunteers_tbl db email = None then Inl (PqError ''foreign_key_violation'')
      else Inr (db\<lparr>team_members_tbl := team_members_tbl db @ [(team_id, email)]\<rparr>))"

definition pg_AddTeamMember :: "Database \<Rightarrow> string \<Rightarrow> string \<Rightarrow> error option \<times> Database" where
  "pg_AddTeamMember db teamID email =
     (case sql_insert_team_member db teamID email of
        Inl err \<Rightarrow>
          (case err of
             PqError code \<Rightarrow>
               if code = ''foreign_key_violation'' then (Some ErrNotFound, db)
               else if code = ''unique_violation'' then (Some ErrAlreadyExists, db)
               else (Some (queryError err), db)
           | _ \<Rightarrow> (Some (queryError err), db))
      | Inr db' \<Rightarrow> (None, db'))"

text \<open>
  \<^verbatim>\<open>SELECT v.email FROM volunteers AS v INNER JOIN team_members AS tm
  ON v.email = tm.volunteer_email WHERE tm.team_id = $1\<close>: the emails of the membership
  rows of the team that have a volunteer row. \<open>SelectContext\<close> appends one struct per row
  to the destination slice, which starts as the nil slice of the \<open>var\<close> declaration; only
  the email column is selected, so \<open>Password\<close> keeps its zero value. An empty result is
  no error for \<open>SelectContext\<close>.
\<close>

definition sql_select_member_emails :: "Database \<Rightarrow> string \<Rightarrow> string list" where
  "sql_select_member_emails db team_id =
     map snd (filter (\<lambda>tm. fst tm = team_id \<and> volunteers_tbl db (snd tm) \<noteq> None)
                (team_members_tbl db))"

fun scan_volunteers :: "Volunteer slice \<Rightarrow> string list \<Rightarrow> Volunteer slice" where
  "scan_volunteers dest [] = dest"
| "scan_volunteers dest (email # rows) =
     scan_volunteers (append_slice dest \<lparr>Email = email, Password = ''''\<rparr>) rows"

definition pg_ListTeamMembers :: "Database \<Rightarrow> string \<Rightarrow> error + Volunteer slice" where
  "pg_ListTeamMembers db teamID =
     Inr (scan_volunteers NilSlice (sql_select_member_emails db teamID))"

text \<open>
  \<^verbatim>\<open>DELETE FROM team_members WHERE team_id = $1 AND volunteer_email = $2\<close>, with the
  number of rows it affected.
\<close>

definition sql_delete_team_member :: "Database \<Rightarrow> string \<Rightarrow> string \<Rightarrow> nat \<times> Database" where
  "sql_delete_team_member db team_id email =
     (length (filter (\<lambda>tm. tm = (team_id, email)) (team_members_tbl db)),
      db\<lparr>team_members_tbl := removeAll (team_id, email) (team_members_tbl db)\<rparr>)"

definition pg_RemoveTeamMember :: "Database \<Rightarrow> string \<Rightarrow> string \<Rightarrow> error option \<times> Database" where
  "pg_RemoveTeamMember db teamID email =
     (case sql_delete_team_member db teamID email of
        (n, db') \<Rightarrow> if n = 0 then (Some ErrNotFound, db') else (None, db'))"

text \<open>
  \<^verbatim>\<open>SELECT team_id, COUNT(*) FROM team_members GROUP BY team_id\<close>: one row per team id
  that occurs in the table. The loop of \<open>CountTeamMembers\<close> stores each row in the map.
\<close>

definition sql_count_team_members :: "Database \<Rightarrow> (string \<times> int) list" where
  "sql_count_team_members db =
     map (\<lambda>team_id. (team_id, int (length (filter (\<lambda>tm. fst tm = team_id) (team_members_tbl db)))))
       (remdups (map fst (team_members_tbl db)))"

fun scan_counts :: "(string \<rightharpoonup> int) \<Rightarrow> (string \<times> int) list \<Rightarrow> (string \<rightharpoonup> int)" where
  "scan_counts counts [] = counts"
| "scan_counts counts ((team_id, n) # rows) = scan_counts (counts(team_id \<mapsto> n)) rows"

definition pg_CountTeamMembers :: "Database \<Rightarrow> (string \<rightharpoonup> int)" where
  "pg_CountTeamMembers db = scan_counts Map.empty (sql_count_team_members db)"

text \<open>The mutating calls against the relational store; a login carries its salt.\<close>

datatype pg_call =
    PgAuthenticateOrCreateCall string Volunteer
  | PgCreateTeamCall Team
  | PgAddTeamMemberCall string string
  | PgRemoveTeamMemberCall string string

fun pg_run_call ::
  "(string \<Rightarrow> string \<Rightarrow> string) \<Rightarrow> Database \<Rightarrow> pg_call \<Rightarrow> error option \<times> Database" where
  "pg_run_call crypt db (PgAuthenticateOrCreateCall salt v) =
     pg_AuthenticateOrCreateVolunteerAccount crypt salt db v"
| "pg_run_call crypt db (PgCreateTeamCall t) = pg_CreateTeam db t"
| "pg_run_call crypt db (PgAddTeamMemberCall teamID email) = pg_AddTeamMember db teamID email"
| "pg_run_call crypt db (PgRemoveTeamMemberCall teamID email) = pg_RemoveTeamMember db teamID email"

fun pg_run_calls :: "(string \<Rightarrow> string \<Rightarrow> string) \<Rightarrow> Database \<Rightarrow> pg_call list \<Rightarrow> Database" where
  "pg_run_calls crypt db [] = db"
| "pg_run_calls crypt db (c # cs) = pg_run_calls crypt (snd (pg_run_call crypt db c)) cs"


section \<open>Authorization of the membership endpoints (package api and main.go)\<close>

text \<open>
  What the handlers read from an \<open>echo.Context\<close>: the values stored under a key
  (\<open>c.Get\<close>, nil when the key was never set) and the path parameters (\<open>c.Param\<close>, the
  empty string when the route has no such parameter). A stored value is a \<open>*jwt.Token\<close>
  or something else; the claims of a token are a \<open>jwt.MapClaims\<close> or another
  implementation of \<open>jwt.Claims\<close>; a claim in the map is a string or something else.
\<close>

datatype claim_value = StringClaim string | OtherClaim
















section \<open>The lock protocol of the in-memory store\<close>

text \<open>
  What a method of the in-memory store does to the mutex \<open>mu\<close> and to the three shared
  maps, in program order. A deferred unlock runs when the method returns, whichever
  return that is. Reading or updating a member set counts as an access to
  \<open>teamMembers\<close>, the map that holds it.
\<close>

datatype shared_map = VolunteersMap | TeamsMap | TeamMembersMap

datatype mu_event = Lock | Unlock | RLock | RUnlock | ReadMap shared_map | WriteMap shared_map

definition AuthenticateOrCreateVolunteerAccount_events :: "Store \<Rightarrow> Volunteer \<Rightarrow> mu_event list" where
  "AuthenticateOrCreateVolunteerAccount_events s volunteer =
     [Lock, ReadMap VolunteersMap]
     @ (case volunteers s (Email volunteer) of
          None \<Rightarrow> [WriteMap VolunteersMap]
        | Some v \<Rightarrow> [])
     @ [Unlock]"

definition GetVolunteerByEmail_events :: "Store \<Rightarrow> string \<Rightarrow> mu_event list" where
  "GetVolunteerByEmail_events s email = [RLock, ReadMap VolunteersMap, RUnlock]"

definition CreateTeam_events :: "Store \<Rightarrow> Team \<Rightarrow> mu_event list" where
  "CreateTeam_events s team =
     [Lock, ReadMap TeamsMap]
     @ (if teams s (ID team) \<noteq> None then [] else [WriteMap TeamsMap])
     @ [Unlock]"

definition GetTeamByID_events :: "Store \<Rightarrow> string \<Rightarrow> mu_event list" where
  "GetTeamByID_events s teamID = [RLock, ReadMap TeamsMap, RUnlock]"

definition AddTeamMember_events :: "Store \<Rightarrow> string \<Rightarrow> string \<Rightarrow> mu_event list" where
  "AddTeamMember_events s teamID email =
     [Lock, ReadMap TeamsMap]
     @ (if teams s teamID = None then []
        else ReadMap VolunteersMap #
          (if volunteers s email = None then []
           else ReadMap TeamMembersMap #
             (case teamMembers s teamID of
                Some members \<Rightarrow>
                  ReadMap TeamMembersMap #
                    (if email \<in> set members then []
                     else [WriteMap TeamMembersMap, WriteMap TeamMembersMap])
              | None \<Rightarrow> [WriteMap TeamMembersMap])))
     @ [Unlock]"

fun member_reads :: "(string \<rightharpoonup> Volunteer) \<Rightarrow> string list \<Rightarrow> mu_event list" where
  "member_reads vs [] = []"
| "member_reads vs (email # rest) =
     ReadMap VolunteersMap #
       (case vs email of None \<Rightarrow> [] | Some v \<Rightarrow> member_reads vs rest)"

definition ListTeamMembers_events :: "Store \<Rightarrow> string \<Rightarrow> mu_event list" where
  "ListTeamMembers_events s teamID =
     [RLock, ReadMap TeamsMap]
     @ (if teams s teamID = None then []
        else ReadMap TeamMembersMap #
          member_reads (volunteers s)
            (case teamMembers s teamID of None \<Rightarrow> [] | Some m \<Rightarrow> m))
     @ [RUnlock]"

definition RemoveTeamMember_events :: "Store \<Rightarrow> string \<Rightarrow> string \<Rightarrow> mu_event list" where
  "RemoveTeamMember_events s teamID email =
     [Lock, ReadMap TeamsMap]
     @ (if teams s teamID = None then []
        else ReadMap TeamMembersMap #
          (case teamMembers s teamID of
             None \<Rightarrow> []
           | Some members \<Rightarrow>
               ReadMap TeamMembersMap #
                 (if email \<notin> set members then [] else [WriteMap TeamMembersMap])))
     @ [Unlock]"

text \<open>
  \<open>CountTeamMembers\<close> takes \<open>len(s.teamMembers)\<close> and ranges over the map; its body
  has no call on \<open>mu\<close>.
\<close>

definition CountTeamMembers_events :: "Store \<Rightarrow> mu_event list" where
  "CountTeamMembers_events s = [ReadMap TeamMembersMap, ReadMap TeamMembersMap]"

text \<open>
  The discipline of a reader/writer lock over a run of events: a read of a shared map
  needs the lock held (shared or exclusive), a write needs it held exclusively.
\<close>

datatype mu_state = Unlocked | ReadLocked | WriteLocked

fun lock_discipline :: "mu_state \<Rightarrow> mu_event list \<Rightarrow> bool" where
  "lock_discipline st [] = True"
| "lock_discipline st (Lock # es) = lock_discipline WriteLocked es"
| "lock_discipline st (Unlock # es) = lock_discipline Unlocked es"
| "lock_discipline st (RLock # es) = lock_discipline ReadLocked es"
| "lock_discipline st (RUnlock # es) = lock_discipline Unlocked es"
| "lock_discipline st (ReadMap m # es) = (st \<noteq> Unlocked \<and> lock_discipline st es)"
| "lock_discipline st (WriteMap m # es) = (st = WriteLocked \<and> lock_discipline st es)"


section \<open>Consistency of the in-memory store\<close>

text \<open>
  What the comment in \<open>ListTeamMembers\<close> relies on ("any team member must be
  registered as a volunteer"), together with the team of every member set being present
  and the keys of a member set being distinct, as the keys of a Go map are.
\<close>

definition consistent :: "Store \<Rightarrow> bool" where
  "consistent s =
     (\<forall>teamID members. teamMembers s teamID = Some members \<longrightarrow>
        teams s teamID \<noteq> None \<and> distinct members \<and> set members \<subseteq> dom (volunteers s))"


section \<open>Example states\<close>

text \<open>
  A store of either kind after the same five requests: two volunteers sign up, two
  teams are created, and \<open>a@x\<close> joins team \<open>t\<close>. Team \<open>u\<close> never gets a member.
\<close>

definition example_store :: Store where
  "example_store =
     run_calls New
       [AuthenticateOrCreateCall \<lparr>Email = ''a@x'', Password = ''p''\<rparr>,
        AuthenticateOrCreateCall \<lparr>Email = ''b@x'', Password = ''q''\<rparr>,
        CreateTeamCall \<lparr>ID = ''t'', Name = ''T''\<rparr>,
        CreateTeamCall \<lparr>ID = ''u'', Name = ''U''\<rparr>,
        AddTeamMemberCall ''t'' ''a@x'']"

text \<open>
  A stand-in for pgcrypto's \<open>crypt\<close> that keeps the first character of the setting as
  the salt and appends the password in clear.
\<close>

definition plain_crypt :: "string \<Rightarrow> string \<Rightarrow> string" where
  "plain_crypt password setting = take 1 (setting @ ''$'') @ password"

definition example_db :: Database where
  "example_db =
     pg_run_calls plain_crypt empty_db
       [PgAuthenticateOrCreateCall ''1'' \<lparr>Email = ''a@x'', Password = ''p''\<rparr>,
        PgAuthenticateOrCreateCall ''2'' \<lparr>Email = ''b@x'', Password = ''q''\<rparr>,
        PgCreateTeamCall \<lparr>ID = ''t'', Name = ''T''\<rparr>,
        PgCreateTeamCall \<lparr>ID = ''u'', Name = ''U''\<rparr>,
        PgAddTeamMemberCall ''t'' ''a@x'']"


section \<open>Properties\<close>

lemma example_store_maps:
  "volunteers example_store =
     [''a@x'' \<mapsto> \<lparr>Email = ''a@x'', Password = ''p''\<rparr>,
      ''b@x'' \<mapsto> \<lparr>Email = ''b@x'', Password = ''q''\<rparr>]"
  "teams example_store =
     [''t'' \<mapsto> \<lparr>ID = ''t'', Name = ''T''\<rparr>, ''u'' \<mapsto> \<lparr>ID = ''u'', Name = ''U''\<rparr>]"
  "teamMembers example_store = [''t'' \<mapsto> [''a@x'']]"
  by (simp_all add: example_store_def AuthenticateOrCreateVolunteerAccount_def New_def
      CreateTeam_def AddTeamMember_def)

lemma example_db_tables:
  "volunteers_tbl example_db = [''a@x'' \<mapsto> ''1p'', ''b@x'' \<mapsto> ''2q'']"
  "teams_tbl example_db = [''t'' \<mapsto> Some ''T'', ''u'' \<mapsto> Some ''U'']"
  "team_members_tbl example_db = [(''t'', ''a@x'')]"
  by (simp_all add: example_db_def empty_db_def plain_crypt_def
      pg_AuthenticateOrCreateVolunteerAccount_def sql_upsert_volunteer_def
      pg_CreateTeam_def sql_insert_team_def pg_AddTeamMember_def sql_insert_team_member_def
      Let_def)


subsection \<open>Redaction in the listing loops\<close>

lemma appendMembers_redacts:
  "appendMembers vs es acc = Inr r \<Longrightarrow> \<forall>v\<in>set acc. Password v = '''' \<Longrightarrow>
   \<forall>v\<in>set r. Password v = ''''"
proof (induction es arbitrary: acc)
  case Nil
  then show ?case by simp
next
  case (Cons email rest)
  from Cons.prems(1) obtain v where v: "vs email = Some v"
    and rec: "appendMembers vs rest (acc @ [v\<lparr>Password := ''''\<rparr>]) = Inr r"
    by (cases "vs email") simp_all
  have "\<forall>w\<in>set (acc @ [v\<lparr>Password := ''''\<rparr>]). Password w = ''''"
    using Cons.prems(2) by simp
  with rec show ?case by (rule Cons.IH)
qed

lemma ListTeamMembers_redacts:
  assumes "ListTeamMembers s teamID = Inr vs"
  shows "\<forall>v\<in>set (elems vs). Password v = ''''"
proof -
  let ?emailSet = "case teamMembers s teamID of None \<Rightarrow> [] | Some m \<Rightarrow> m"
  from assms obtain r where r: "appendMembers (volunteers s) ?emailSet [] = Inr r"
    and vs: "vs = Slice r"
    by (cases "appendMembers (volunteers s) ?emailSet []")
       (simp_all add: ListTeamMembers_def Let_def split: if_splits)
  have "\<forall>v\<in>set r. Password v = ''''"
    using appendMembers_redacts [OF r] by simp
  then show ?thesis by (simp add: vs)
qed

lemma scan_volunteers_redacts:
  "\<forall>v\<in>set (elems dest). Password v = '''' \<Longrightarrow>
   \<forall>v\<in>set (elems (scan_volunteers dest rows)). Password v = ''''"
proof (induction rows arbitrary: dest)
  case Nil
  then show ?case by simp
next
  case (Cons email rows)
  have "\<forall>v\<in>set (elems (append_slice dest \<lparr>Email = email, Password = ''''\<rparr>)). Password v = ''''"
    using Cons.prems by (cases dest) auto
  then show ?case using Cons.IH by simp
qed

lemma pg_ListTeamMembers_redacts:
  assumes "pg_ListTeamMembers db teamID = Inr vs"
  shows "\<forall>v\<in>set (elems vs). Password v = ''''"
proof -
  have "vs = scan_volunteers NilSlice (sql_select_member_emails db teamID)"
    using assms by (simp add: pg_ListTeamMembers_def)
  moreover have "\<forall>v\<in>set (elems (NilSlice :: Volunteer slice)). Password v = ''''"
    by simp
  ultimately show ?thesis
    using scan_volunteers_redacts [of NilSlice "sql_select_member_emails db teamID"] by simp
qed

subsection \<open>The lock protocol, method by method\<close>

lemma member_reads_discipline: "lock_discipline ReadLocked (member_reads vs es @ [RUnlock])"
  by (induction es) (simp_all split: option.splits)

text \<open>
  Every method that locks \<open>mu\<close> keeps the discipline, on each of its paths.
\<close>

lemma locked_methods_keep_discipline:
  "lock_discipline Unlocked (AuthenticateOrCreateVolunteerAccount_events s v)"
  "lock_discipline Unlocked (GetVolunteerByEmail_events s email)"
  "lock_discipline Unlocked (CreateTeam_events s t)"
  "lock_discipline Unlocked (GetTeamByID_events s teamID)"
  "lock_discipline Unlocked (AddTeamMember_events s teamID email)"
  "lock_discipline Unlocked (ListTeamMembers_events s teamID)"
  "lock_discipline Unlocked (RemoveTeamMember_events s teamID email)"
  by (simp_all add: AuthenticateOrCreateVolunteerAccount_events_def GetVolunteerByEmail_events_def
      CreateTeam_events_def GetTeamByID_events_def AddTeamMember_events_def
      ListTeamMembers_events_def RemoveTeamMember_events_def member_reads_discipline
      split: option.splits)

subsection \<open>Reachable states of the in-memory store are consistent\<close>

text \<open>
  The empty store is consistent and every mutating call keeps it so; in a consistent
  store \<open>ListTeamMembers\<close> of an existing team returns, with one volunteer per
  recorded member, and never dereferences a nil pointer.
\<close>

lemma consistent_New: "consistent New"
  by (simp add: consistent_def New_def)

lemma run_call_consistent: "consistent s \<Longrightarrow> consistent (snd (run_call s c))"
proof (cases c)
  case (AuthenticateOrCreateCall v)
  assume "consistent s"
  then show ?thesis
    unfolding AuthenticateOrCreateCall consistent_def
    by (auto simp: AuthenticateOrCreateVolunteerAccount_def split: option.splits)
next
  case (CreateTeamCall t)
  assume "consistent s"
  then show ?thesis
    unfolding CreateTeamCall consistent_def
    by (auto simp: CreateTeam_def)
next
  case (AddTeamMemberCall teamID email)
  assume "consistent s"
  then show ?thesis
    unfolding AddTeamMemberCall consistent_def
    by (auto simp: AddTeamMember_def Let_def split: option.splits if_splits)
next
  case (RemoveTeamMemberCall teamID email)
  assume "consistent s"
  then show ?thesis
    unfolding RemoveTeamMemberCall consistent_def
    by (auto simp: RemoveTeamMember_def distinct_removeAll split: option.splits if_splits)
qed

lemma run_calls_consistent: "consistent s \<Longrightarrow> consistent (run_calls s cs)"
  by (induction cs arbitrary: s) (simp_all add: run_call_consistent)

lemma appendMembers_registered:
  "set es \<subseteq> dom vs \<Longrightarrow>
   appendMembers vs es acc = Inr (acc @ map (\<lambda>e. (the (vs e))\<lparr>Password := ''''\<rparr>) es)"
proof (induction es arbitrary: acc)
  case Nil
  show ?case by simp
next
  case (Cons email rest)
  from Cons.prems obtain v where v: "vs email = Some v" by auto
  have "set rest \<subseteq> dom vs" using Cons.prems by simp
  then show ?case using v by (simp add: Cons.IH)
qed

lemma ListTeamMembers_returns:
  assumes "consistent s" and "teams s teamID \<noteq> None"
  shows "\<exists>vs. ListTeamMembers s teamID = Inr (Slice vs)
              \<and> map Email vs = map (\<lambda>e. Email (the (volunteers s e)))
                    (case teamMembers s teamID of None \<Rightarrow> [] | Some m \<Rightarrow> m)"
proof -
  let ?emailSet = "case teamMembers s teamID of None \<Rightarrow> [] | Some m \<Rightarrow> m"
  have "set ?emailSet \<subseteq> dom (volunteers s)"
  proof (cases "teamMembers s teamID")
    case None
    then show ?thesis by simp
  next
    case (Some members)
    with assms(1) have "set members \<subseteq> dom (volunteers s)"
      unfolding consistent_def by blast
    with Some show ?thesis by simp
  qed
  then have "appendMembers (volunteers s) ?emailSet []
               = Inr ([] @ map (\<lambda>e. (the (volunteers s e))\<lparr>Password := ''''\<rparr>) ?emailSet)"
    by (rule appendMembers_registered)
  then show ?thesis
    using assms(2) by (simp add: ListTeamMembers_def o_def)
qed

subsection \<open>What later calls keep\<close>

text \<open>
  No method of either store removes or rewrites a team or a volunteer once it is stored.
\<close>

lemma run_call_keeps_team: "teams s k = Some T \<Longrightarrow> teams (snd (run_call s c)) k = Some T"
  by (cases c)
     (auto simp: AuthenticateOrCreateVolunteerAccount_def CreateTeam_def AddTeamMember_def
        RemoveTeamMember_def Let_def split: option.splits)

lemma run_calls_keeps_team: "teams s k = Some T \<Longrightarrow> teams (run_calls s cs) k = Some T"
  by (induction cs arbitrary: s) (simp_all add: run_call_keeps_team)

lemma run_call_keeps_volunteer:
  "volunteers s k = Some v \<Longrightarrow> volunteers (snd (run_call s c)) k = Some v"
  by (cases c)
     (auto simp: AuthenticateOrCreateVolunteerAccount_def CreateTeam_def AddTeamMember_def
        RemoveTeamMember_def Let_def split: option.splits)

lemma run_calls_keeps_volunteer:
  "volunteers s k = Some v \<Longrightarrow> volunteers (run_calls s cs) k = Some v"
  by (induction cs arbitrary: s) (simp_all add: run_call_keeps_volunteer)

lemma sql_upsert_volunteer_conflict:
  "volunteers_tbl db email = Some stored \<Longrightarrow>
   sql_upsert_volunteer crypt salt db email password = Inr (stored = crypt password stored, db)"
  by (simp add: sql_upsert_volunteer_def map_upd_triv)

lemma pg_run_call_keeps_team:
  "teams_tbl db k = Some n \<Longrightarrow> teams_tbl (snd (pg_run_call crypt db c)) k = Some n"
  by (cases c)
     (auto simp: pg_AuthenticateOrCreateVolunteerAccount_def sql_upsert_volunteer_def
        pg_CreateTeam_def sql_insert_team_def pg_AddTeamMember_def sql_insert_team_member_def
        pg_RemoveTeamMember_def sql_delete_team_member_def Let_def split: option.splits)

lemma pg_run_calls_keeps_team:
  "teams_tbl db k = Some n \<Longrightarrow> teams_tbl (pg_run_calls crypt db cs) k = Some n"
  by (induction cs arbitrary: db) (simp_all add: pg_run_call_keeps_team)

lemma pg_run_call_keeps_volunteer:
  "volunteers_tbl db k = Some h \<Longrightarrow> volunteers_tbl (snd (pg_run_call crypt db c)) k = Some h"
  by (cases c)
     (auto simp: pg_AuthenticateOrCreateVolunteerAccount_def sql_upsert_volunteer_def
        pg_CreateTeam_def sql_insert_team_def pg_AddTeamMember_def sql_insert_team_member_def
        pg_RemoveTeamMember_def sql_delete_team_member_def Let_def split: option.splits)

lemma pg_run_calls_keeps_volunteer:
  "volunteers_tbl db k = Some h \<Longrightarrow> volunteers_tbl (pg_run_calls crypt db cs) k = Some h"
  by (induction cs arbitrary: db) (simp_all add: pg_run_call_keeps_volunteer)

subsection \<open>The stand-in for crypt\<close>

lemma plain_crypt_verifies: "plain_crypt pw (plain_crypt pw setting) = plain_crypt pw setting"
  by (cases setting) (simp_all add: plain_crypt_def)

lemma plain_crypt_distinguishes:
  "plain_crypt pw' (plain_crypt pw setting) = plain_crypt pw setting \<Longrightarrow> pw' = pw"
  by (cases setting) (simp_all add: plain_crypt_def)

subsection \<open>The member counts of the relational store\<close>

lemma scan_counts_dom: "dom (scan_counts counts rows) = dom counts \<union> fst ` set rows"
proof (induction counts rows rule: scan_counts.induct)
  case (1 counts)
  show ?case by simp
next
  case (2 counts team_id n rows)
  have "dom (scan_counts (counts(team_id \<mapsto> n)) rows)
          = dom (counts(team_id \<mapsto> n)) \<union> fst ` set rows"
    by (rule "2.IH")
  also have "\<dots> = dom counts \<union> fst ` set ((team_id, n) # rows)"
    by simp
  finally show ?case by simp
qed

text \<open>
  The relational \<open>CountTeamMembers\<close> has a key exactly for the team ids that occur in a
  membership row.
\<close>

lemma pg_CountTeamMembers_dom:
  "dom (pg_CountTeamMembers db) = fst ` set (team_members_tbl db)"
  by (simp add: pg_CountTeamMembers_def sql_count_team_members_def scan_counts_dom image_image)

lemma scan_counts_value:
  "scan_counts counts rows k = Some n \<Longrightarrow> counts k = Some n \<or> (k, n) \<in> set rows"
proof (induction counts rows rule: scan_counts.induct)
  case (1 counts)
  then show ?case by simp
next
  case (2 counts team_id m rows)
  have "scan_counts (counts(team_id \<mapsto> m)) rows k = Some n"
    using "2.prems" by (simp only: scan_counts.simps)
  then have "(counts(team_id \<mapsto> m)) k = Some n \<or> (k, n) \<in> set rows"
    by (rule "2.IH")
  then show ?case by (auto split: if_splits)
qed

lemma pg_CountTeamMembers_positive:
  assumes "pg_CountTeamMembers db k = Some n"
  shows "1 \<le> n"
proof -
  from assms have "(k, n) \<in> set (sql_count_team_members db)"
    using scan_counts_value [of Map.empty "sql_count_team_members db" k n]
    by (simp add: pg_CountTeamMembers_def)
  then have k: "k \<in> fst ` set (team_members_tbl db)"
    and n: "n = int (length (filter (\<lambda>tm. fst tm = k) (team_members_tbl db)))"
    by (auto simp: sql_count_team_members_def)
  from k have "filter (\<lambda>tm. fst tm = k) (team_members_tbl db) \<noteq> []"
    by (auto simp: filter_empty_conv)
  then show ?thesis using n by (cases "filter (\<lambda>tm. fst tm = k) (team_members_tbl db)") simp_all
qed

text \<open>
  After the only member of team \<open>t\<close> has left, the relational store has no count for
  \<open>t\<close>.
\<close>

lemma pg_CountTeamMembers_drops_emptied_team:
  "fst (pg_RemoveTeamMember example_db ''t'' ''a@x'') = None
   \<and> pg_CountTeamMembers example_db ''t'' = Some 1
   \<and> pg_CountTeamMembers (snd (pg_RemoveTeamMember example_db ''t'' ''a@x'')) ''t'' = None"
  by (simp add: pg_RemoveTeamMember_def sql_delete_team_member_def pg_CountTeamMembers_def
        sql_count_team_members_def example_db_tables)

subsection \<open>The member counts of the in-memory store\<close>

text \<open>
  The in-memory \<open>CountTeamMembers\<close> has one entry for each team with a member set on
  record, holding the size of that set; a set emptied by \<open>RemoveTeamMember\<close> stays
  on record.
\<close>

lemma CountTeamMembers_entries:
  "CountTeamMembers s t = map_option (\<lambda>members. int (length members)) (teamMembers s t)"
  by (simp add: CountTeamMembers_def)

lemma RemoveTeamMember_keeps_member_set:
  "fst (RemoveTeamMember s t e) = None \<Longrightarrow> teamMembers (snd (RemoveTeamMember s t e)) t \<noteq> None"
  by (simp add: RemoveTeamMember_def split: if_splits option.splits)

subsection \<open>What a successful AddTeamMember leaves behind\<close>

text \<open>
  In the in-memory store the member set of the team is the new member alone after every
  successful call, whatever it was before; in the relational store the new row is added
  to the rows that were there.
\<close>

lemma AddTeamMember_leaves_singleton:
  "fst (AddTeamMember s teamID email) = None \<Longrightarrow>
   teamMembers (snd (AddTeamMember s teamID email)) teamID = Some [email]"
  by (simp add: AddTeamMember_def Let_def split: if_splits option.splits)

lemma pg_AddTeamMember_keeps_rows:
  "fst (pg_AddTeamMember db teamID email) = None \<Longrightarrow>
   team_members_tbl (snd (pg_AddTeamMember db teamID email))
     = team_members_tbl db @ [(teamID, email)]"
  by (simp add: pg_AddTeamMember_def sql_insert_team_member_def split: if_splits)

lemma pg_AddTeamMember_second_add_keeps_first:
  "fst (pg_AddTeamMember example_db ''t'' ''b@x'') = None
   \<and> pg_ListTeamMembers (snd (pg_AddTeamMember example_db ''t'' ''b@x'')) ''t''
       = Inr (Slice [\<lparr>Email = ''a@x'', Password = ''''\<rparr>, \<lparr>Email = ''b@x'', Password = ''''\<rparr>])"
  by (simp add: pg_AddTeamMember_def sql_insert_team_member_def pg_ListTeamMembers_def
        sql_select_member_emails_def example_db_tables)

subsection \<open>The claims\<close>

text \<open>
  Claim C1 (membership is a set that grows by insertion). The claim asks that after two
  successful calls \<open>AddTeamMember t v1\<close> and \<open>AddTeamMember t v2\<close> with \<open>v1 \<noteq> v2\<close> the
  listing of \<open>t\<close> holds both volunteers. Evaluated on the store reached from the empty
  one by registering \<open>a@x\<close> and \<open>b@x\<close> and creating team \<open>t\<close>: both additions succeed,
  and the listing afterwards holds \<open>b@x\<close> alone; \<open>a@x\<close> is gone.
\<close>

theorem AddTeamMember_second_add_drops_first:
  "let s1 = snd (AuthenticateOrCreateVolunteerAccount New \<lparr>Email = ''a@x'', Password = ''p''\<rparr>);
       s2 = snd (AuthenticateOrCreateVolunteerAccount s1 \<lparr>Email = ''b@x'', Password = ''q''\<rparr>);
       s3 = snd (CreateTeam s2 \<lparr>ID = ''t'', Name = ''T''\<rparr>);
       r4 = AddTeamMember s3 ''t'' ''a@x'';
       r5 = AddTeamMember (snd r4) ''t'' ''b@x''
   in fst r4 = None \<and> fst r5 = None
      \<and> ListTeamMembers (snd r4) ''t'' = Inr (Slice [\<lparr>Email = ''a@x'', Password = ''''\<rparr>])
      \<and> ListTeamMembers (snd r5) ''t'' = Inr (Slice [\<lparr>Email = ''b@x'', Password = ''''\<rparr>])"
  by (simp add: AuthenticateOrCreateVolunteerAccount_def New_def CreateTeam_def
        AddTeamMember_def ListTeamMembers_def Let_def)


text \<open>
  Claim C2 (teams without members in the member counts). The claim says that a team with
  zero members is never a key of the result of \<open>CountTeamMembers\<close>, also after its last
  member was removed, and that every count is at least 1. The relational store does so
  (lemmas \<open>pg_CountTeamMembers_dom\<close>, \<open>pg_CountTeamMembers_positive\<close> and
  \<open>pg_CountTeamMembers_drops_emptied_team\<close>). In the in-memory store
  \<open>RemoveTeamMember\<close> deletes the email from the member set and keeps the emptied set
  in \<open>teamMembers\<close>: after \<open>a@x\<close>, the only member, leaves team \<open>t\<close>, the listing of
  \<open>t\<close> is empty and \<open>t\<close> is counted with 0.
\<close>

theorem CountTeamMembers_keeps_emptied_team:
  "fst (RemoveTeamMember example_store ''t'' ''a@x'') = None
   \<and> ListTeamMembers (snd (RemoveTeamMember example_store ''t'' ''a@x'')) ''t'' = Inr (Slice [])
   \<and> CountTeamMembers (snd (RemoveTeamMember example_store ''t'' ''a@x'')) ''t'' = Some 0"
  by (simp add: RemoveTeamMember_def ListTeamMembers_def CountTeamMembers_def example_store_maps)




text \<open>
  Claim C4 (a state in which the in-memory \<open>AddTeamMember\<close> accepts an unknown
  volunteer). The claim says there is a store with the team present, the email absent
  and no member set yet for the team, in which the call does not fail with
  \<open>ErrNotFound\<close>. There is none: the volunteer is looked up right after the team,
  before the member set is read.
\<close>

theorem AddTeamMember_unknown_volunteer_never_accepted:
  "\<not> (\<exists>s t e. teams s t \<noteq> None \<and> volunteers s e = None \<and> teamMembers s t = None
        \<and> fst (AddTeamMember s t e) \<noteq> Some ErrNotFound)"
  by (simp add: AddTeamMember_def)

text \<open>
  Claim C4, amended. In every state of the in-memory store in which the team exists and
  the email is not registered, \<open>AddTeamMember\<close> fails with \<open>ErrNotFound\<close> and leaves
  the store as it was, whether or not a member set is on record for the team.
\<close>

theorem AddTeamMember_checks_volunteer_on_both_branches:
  "teams s t \<noteq> None \<Longrightarrow> volunteers s e = None \<Longrightarrow>
   AddTeamMember s t e = (Some ErrNotFound, s)"
  by (simp add: AddTeamMember_def)

theorem AddTeamMember_checks_volunteer_on_both_branches_witness:
  "teams example_store ''u'' \<noteq> None \<and> volunteers example_store ''nobody@x'' = None
   \<and> teamMembers example_store ''u'' = None
   \<and> AddTeamMember example_store ''u'' ''nobody@x'' = (Some ErrNotFound, example_store)
   \<and> teams example_store ''t'' \<noteq> None \<and> teamMembers example_store ''t'' \<noteq> None
   \<and> AddTeamMember example_store ''t'' ''nobody@x'' = (Some ErrNotFound, example_store)"
  using AddTeamMember_checks_volunteer_on_both_branches [of example_store "''u''" "''nobody@x''"]
    AddTeamMember_checks_volunteer_on_both_branches [of example_store "''t''" "''nobody@x''"]
  by (simp add: example_store_maps)

text \<open>
  Claim C5 (first login creates, later logins only compare). In the in-memory store,
  for an email with no volunteer on record: the call succeeds and stores the volunteer;
  after any further mutating calls the stored volunteer is still the same, a call with
  the same password succeeds and leaves the store as it is, and a call with any other
  password fails with \<open>ErrPasswordMismatch\<close>. In the relational store the same holds
  for the row of the email, which holds \<open>crypt\<close> of the password under the salt of the
  first call, provided \<open>crypt\<close> verifies what it produced and no two passwords give the
  same result under one setting.
\<close>

theorem authenticate_or_create_is_write_once:
  "(volunteers s e = None \<longrightarrow>
      (let r = AuthenticateOrCreateVolunteerAccount s \<lparr>Email = e, Password = p\<rparr>;
           s' = run_calls (snd r) cs
       in fst r = None
          \<and> volunteers (snd r) e = Some \<lparr>Email = e, Password = p\<rparr>
          \<and> volunteers s' e = Some \<lparr>Email = e, Password = p\<rparr>
          \<and> AuthenticateOrCreateVolunteerAccount s' \<lparr>Email = e, Password = p\<rparr> = (None, s')
          \<and> (\<forall>p'. p' \<noteq> p \<longrightarrow>
                AuthenticateOrCreateVolunteerAccount s' \<lparr>Email = e, Password = p'\<rparr>
                  = (Some ErrPasswordMismatch, s'))))
   \<and> ((\<forall>pw setting. crypt pw (crypt pw setting) = crypt pw setting)
       \<and> (\<forall>pw pw' setting. crypt pw' (crypt pw setting) = crypt pw setting \<longrightarrow> pw' = pw)
       \<and> volunteers_tbl db e = None \<longrightarrow>
      (let r = pg_AuthenticateOrCreateVolunteerAccount crypt salt db \<lparr>Email = e, Password = p\<rparr>;
           db' = pg_run_calls crypt (snd r) pcs
       in fst r = None
          \<and> volunteers_tbl (snd r) e = Some (crypt p salt)
          \<and> volunteers_tbl db' e = Some (crypt p salt)
          \<and> (\<forall>salt'. pg_AuthenticateOrCreateVolunteerAccount crypt salt' db'
                         \<lparr>Email = e, Password = p\<rparr> = (None, db'))
          \<and> (\<forall>salt' p'. p' \<noteq> p \<longrightarrow>
                pg_AuthenticateOrCreateVolunteerAccount crypt salt' db'
                  \<lparr>Email = e, Password = p'\<rparr> = (Some ErrPasswordMismatch, db'))))"
proof (intro conjI impI)
  assume new: "volunteers s e = None"
  let ?v = "\<lparr>Email = e, Password = p\<rparr>"
  let ?r = "AuthenticateOrCreateVolunteerAccount s ?v"
  have r: "fst ?r = None" and stored: "volunteers (snd ?r) e = Some ?v"
    using new by (simp_all add: AuthenticateOrCreateVolunteerAccount_def)
  have kept: "volunteers (run_calls (snd ?r) cs) e = Some ?v"
    using stored by (rule run_calls_keeps_volunteer)
  show "let r = ?r; s' = run_calls (snd r) cs
        in fst r = None
           \<and> volunteers (snd r) e = Some ?v
           \<and> volunteers s' e = Some ?v
           \<and> AuthenticateOrCreateVolunteerAccount s' ?v = (None, s')
           \<and> (\<forall>p'. p' \<noteq> p \<longrightarrow>
                 AuthenticateOrCreateVolunteerAccount s' \<lparr>Email = e, Password = p'\<rparr>
                   = (Some ErrPasswordMismatch, s'))"
    using r stored kept by (simp add: Let_def AuthenticateOrCreateVolunteerAccount_def)
next
  assume h: "(\<forall>pw setting. crypt pw (crypt pw setting) = crypt pw setting)
       \<and> (\<forall>pw pw' setting. crypt pw' (crypt pw setting) = crypt pw setting \<longrightarrow> pw' = pw)
       \<and> volunteers_tbl db e = None"
  then have verify: "crypt p (crypt p salt) = crypt p salt"
    and distinct: "\<And>p'. p' \<noteq> p \<Longrightarrow> crypt p' (crypt p salt) \<noteq> crypt p salt"
    and new: "volunteers_tbl db e = None"
    by blast+
  let ?v = "\<lparr>Email = e, Password = p\<rparr>"
  define r where "r = pg_AuthenticateOrCreateVolunteerAccount crypt salt db ?v"
  define db' where "db' = pg_run_calls crypt (snd r) pcs"
  have r: "fst r = None" and stored: "volunteers_tbl (snd r) e = Some (crypt p salt)"
    using new verify
    by (simp_all add: r_def pg_AuthenticateOrCreateVolunteerAccount_def
          sql_upsert_volunteer_def Let_def)
  have kept: "volunteers_tbl db' e = Some (crypt p salt)"
    unfolding db'_def using stored by (rule pg_run_calls_keeps_volunteer)
  have same: "pg_AuthenticateOrCreateVolunteerAccount crypt salt' db' ?v = (None, db')"
    for salt'
    using verify
    by (simp add: pg_AuthenticateOrCreateVolunteerAccount_def
          sql_upsert_volunteer_conflict [OF kept])
  have other: "pg_AuthenticateOrCreateVolunteerAccount crypt salt' db'
                 \<lparr>Email = e, Password = p'\<rparr> = (Some ErrPasswordMismatch, db')"
    if "p' \<noteq> p" for salt' p'
    using distinct [OF that]
    by (simp add: pg_AuthenticateOrCreateVolunteerAccount_def
          sql_upsert_volunteer_conflict [OF kept] eq_commute)
  show "let r = pg_AuthenticateOrCreateVolunteerAccount crypt salt db ?v;
            db' = pg_run_calls crypt (snd r) pcs
        in fst r = None
           \<and> volunteers_tbl (snd r) e = Some (crypt p salt)
           \<and> volunteers_tbl db' e = Some (crypt p salt)
           \<and> (\<forall>salt'. pg_AuthenticateOrCreateVolunteerAccount crypt salt' db' ?v = (None, db'))
           \<and> (\<forall>salt' p'. p' \<noteq> p \<longrightarrow>
                 pg_AuthenticateOrCreateVolunteerAccount crypt salt' db'
                   \<lparr>Email = e, Password = p'\<rparr> = (Some ErrPasswordMismatch, db'))"
    unfolding Let_def r_def [symmetric] db'_def [symmetric]
    using r stored kept same other by simp
qed

theorem authenticate_or_create_is_write_once_witness:
  "(let r = AuthenticateOrCreateVolunteerAccount example_store \<lparr>Email = ''c@x'', Password = ''r''\<rparr>;
        s' = run_calls (snd r) [AddTeamMemberCall ''u'' ''c@x''];
        pr = pg_AuthenticateOrCreateVolunteerAccount plain_crypt ''3'' example_db
               \<lparr>Email = ''c@x'', Password = ''r''\<rparr>;
        db' = pg_run_calls plain_crypt (snd pr) [PgAddTeamMemberCall ''u'' ''c@x'']
    in volunteers example_store ''c@x'' = None
     \<and> fst r = None
     \<and> volunteers s' ''c@x'' = Some \<lparr>Email = ''c@x'', Password = ''r''\<rparr>
     \<and> AuthenticateOrCreateVolunteerAccount s' \<lparr>Email = ''c@x'', Password = ''r''\<rparr> = (None, s')
     \<and> AuthenticateOrCreateVolunteerAccount s' \<lparr>Email = ''c@x'', Password = ''wrong''\<rparr>
         = (Some ErrPasswordMismatch, s')
     \<and> volunteers_tbl example_db ''c@x'' = None
     \<and> fst pr = None
     \<and> volunteers_tbl db' ''c@x'' = Some ''3r''
     \<and> pg_AuthenticateOrCreateVolunteerAccount plain_crypt ''4'' db'
          \<lparr>Email = ''c@x'', Password = ''r''\<rparr> = (None, db')
     \<and> pg_AuthenticateOrCreateVolunteerAccount plain_crypt ''5'' db'
          \<lparr>Email = ''c@x'', Password = ''wrong''\<rparr> = (Some ErrPasswordMismatch, db'))"
proof -
  have new: "volunteers example_store ''c@x'' = None"
    and pg_new: "volunteers_tbl example_db ''c@x'' = None"
    by (simp_all add: example_store_maps example_db_tables)
  have crypt_ok:
    "(\<forall>pw setting. plain_crypt pw (plain_crypt pw setting) = plain_crypt pw setting)
     \<and> (\<forall>pw pw' setting. plain_crypt pw' (plain_crypt pw setting) = plain_crypt pw setting
           \<longrightarrow> pw' = pw)"
    using plain_crypt_verifies plain_crypt_distinguishes by blast
  have hash: "plain_crypt ''r'' ''3'' = ''3r''"
    by (simp add: plain_crypt_def)
  have neq: "''wrong'' \<noteq> ''r''"
    by simp
  show ?thesis
    using new pg_new crypt_ok neq
      authenticate_or_create_is_write_once [of example_store "''c@x''" "''r''"
        "[AddTeamMemberCall ''u'' ''c@x'']" plain_crypt example_db "''3''"
        "[PgAddTeamMemberCall ''u'' ''c@x'']"]
    by (simp add: Let_def hash)
qed

text \<open>
  Claim C6 (no password on any read path). In both stores, whatever password is stored:
  \<open>GetVolunteerByEmail\<close> returns a stored volunteer with the empty password and gives
  \<open>ErrNotFound\<close> for an absent email, and every volunteer in a result of
  \<open>ListTeamMembers\<close> has the empty password.
\<close>

theorem read_paths_return_no_password:
  "(\<forall>v. GetVolunteerByEmail s email = Inr v \<longrightarrow> Password v = '''')
   \<and> (\<forall>v. volunteers s email = Some v
         \<longrightarrow> GetVolunteerByEmail s email = Inr \<lparr>Email = Email v, Password = ''''\<rparr>)
   \<and> (volunteers s email = None \<longrightarrow> GetVolunteerByEmail s email = Inl ErrNotFound)
   \<and> (\<forall>vs. ListTeamMembers s teamID = Inr vs \<longrightarrow> (\<forall>v\<in>set (elems vs). Password v = ''''))
   \<and> (\<forall>v. pg_GetVolunteerByEmail db email = Inr v \<longrightarrow> Password v = '''')
   \<and> (\<forall>pw. volunteers_tbl db email = Some pw
         \<longrightarrow> pg_GetVolunteerByEmail db email = Inr \<lparr>Email = email, Password = ''''\<rparr>)
   \<and> (volunteers_tbl db email = None \<longrightarrow> pg_GetVolunteerByEmail db email = Inl ErrNotFound)
   \<and> (\<forall>vs. pg_ListTeamMembers db teamID = Inr vs \<longrightarrow> (\<forall>v\<in>set (elems vs). Password v = ''''))"
proof -
  have "\<forall>v. GetVolunteerByEmail s email = Inr v \<longrightarrow> Password v = ''''"
    by (auto simp: GetVolunteerByEmail_def split: option.splits)
  moreover have "\<forall>v. volunteers s email = Some v
         \<longrightarrow> GetVolunteerByEmail s email = Inr \<lparr>Email = Email v, Password = ''''\<rparr>"
    by (simp add: GetVolunteerByEmail_def)
  moreover have "volunteers s email = None \<longrightarrow> GetVolunteerByEmail s email = Inl ErrNotFound"
    by (simp add: GetVolunteerByEmail_def)
  moreover have "\<forall>v. pg_GetVolunteerByEmail db email = Inr v \<longrightarrow> Password v = ''''"
    by (auto simp: pg_GetVolunteerByEmail_def split: sum.splits)
  moreover have "\<forall>pw. volunteers_tbl db email = Some pw
         \<longrightarrow> pg_GetVolunteerByEmail db email = Inr \<lparr>Email = email, Password = ''''\<rparr>"
    by (simp add: pg_GetVolunteerByEmail_def sql_select_volunteer_def)
  moreover have "volunteers_tbl db email = None \<longrightarrow> pg_GetVolunteerByEmail db email = Inl ErrNotFound"
    by (simp add: pg_GetVolunteerByEmail_def sql_select_volunteer_def queryError_def)
  ultimately show ?thesis
    using ListTeamMembers_redacts [of s teamID] pg_ListTeamMembers_redacts [of db teamID]
    by blast
qed

theorem read_paths_return_no_password_witness:
  "volunteers example_store ''a@x'' = Some \<lparr>Email = ''a@x'', Password = ''p''\<rparr>
   \<and> GetVolunteerByEmail example_store ''a@x'' = Inr \<lparr>Email = ''a@x'', Password = ''''\<rparr>
   \<and> volunteers example_store ''nobody@x'' = None
   \<and> GetVolunteerByEmail example_store ''nobody@x'' = Inl ErrNotFound
   \<and> ListTeamMembers example_store ''t'' = Inr (Slice [\<lparr>Email = ''a@x'', Password = ''''\<rparr>])
   \<and> volunteers_tbl example_db ''a@x'' = Some ''1p''
   \<and> pg_GetVolunteerByEmail example_db ''a@x'' = Inr \<lparr>Email = ''a@x'', Password = ''''\<rparr>
   \<and> volunteers_tbl example_db ''nobody@x'' = None
   \<and> pg_GetVolunteerByEmail example_db ''nobody@x'' = Inl ErrNotFound
   \<and> pg_ListTeamMembers example_db ''t'' = Inr (Slice [\<lparr>Email = ''a@x'', Password = ''''\<rparr>])"
proof -
  have a: "GetVolunteerByEmail example_store ''a@x'' = Inr \<lparr>Email = ''a@x'', Password = ''''\<rparr>"
    by (simp add: GetVolunteerByEmail_def example_store_maps)
  have l: "ListTeamMembers example_store ''t'' = Inr (Slice [\<lparr>Email = ''a@x'', Password = ''''\<rparr>])"
    by (simp add: ListTeamMembers_def example_store_maps)
  have pa: "pg_GetVolunteerByEmail example_db ''a@x'' = Inr \<lparr>Email = ''a@x'', Password = ''''\<rparr>"
    by (simp add: pg_GetVolunteerByEmail_def sql_select_volunteer_def example_db_tables)
  have pl: "pg_ListTeamMembers example_db ''t'' = Inr (Slice [\<lparr>Email = ''a@x'', Password = ''''\<rparr>])"
    by (simp add: pg_ListTeamMembers_def sql_select_member_emails_def example_db_tables)
  have n: "volunteers example_store ''nobody@x'' = None"
    and pn: "volunteers_tbl example_db ''nobody@x'' = None"
    by (simp_all add: example_store_maps example_db_tables)
  show ?thesis
    using read_paths_return_no_password [of example_store "''nobody@x''" "''t''" example_db] n pn
    by (simp add: a l pa pl example_store_maps example_db_tables)
qed

text \<open>
  Claim C7 (a created team stays as created). In both stores: once \<open>CreateTeam\<close> has
  stored a team, then after any further mutating calls \<open>GetTeamByID\<close> on its id returns
  the team with the id and the name that were supplied, and \<open>CreateTeam\<close> with a team
  of the same id fails with \<open>ErrAlreadyExists\<close> and leaves the store (the stored team
  included) as it was.
\<close>

theorem created_team_is_kept_verbatim:
  "(fst (CreateTeam s T) = None \<longrightarrow>
      (let s' = run_calls (snd (CreateTeam s T)) cs
       in GetTeamByID s' (ID T) = Inr T
          \<and> (\<forall>T'. ID T' = ID T \<longrightarrow> CreateTeam s' T' = (Some ErrAlreadyExists, s'))))
   \<and> (fst (pg_CreateTeam db T) = None \<longrightarrow>
      (let db' = pg_run_calls crypt (snd (pg_CreateTeam db T)) pcs
       in pg_GetTeamByID db' (ID T) = Inr T
          \<and> (\<forall>T'. ID T' = ID T \<longrightarrow> pg_CreateTeam db' T' = (Some ErrAlreadyExists, db'))))"
proof (intro conjI impI)
  assume ok: "fst (CreateTeam s T) = None"
  then have "teams (snd (CreateTeam s T)) (ID T) = Some T"
    by (simp add: CreateTeam_def split: if_splits)
  then have kept: "teams (run_calls (snd (CreateTeam s T)) cs) (ID T) = Some T"
    by (rule run_calls_keeps_team)
  show "let s' = run_calls (snd (CreateTeam s T)) cs
        in GetTeamByID s' (ID T) = Inr T
           \<and> (\<forall>T'. ID T' = ID T \<longrightarrow> CreateTeam s' T' = (Some ErrAlreadyExists, s'))"
    using kept by (simp add: Let_def GetTeamByID_def CreateTeam_def)
next
  assume ok: "fst (pg_CreateTeam db T) = None"
  then have "teams_tbl (snd (pg_CreateTeam db T)) (ID T) = Some (Some (Name T))"
    by (simp add: pg_CreateTeam_def sql_insert_team_def split: if_splits)
  then have kept: "teams_tbl (pg_run_calls crypt (snd (pg_CreateTeam db T)) pcs) (ID T)
                     = Some (Some (Name T))"
    by (rule pg_run_calls_keeps_team)
  show "let db' = pg_run_calls crypt (snd (pg_CreateTeam db T)) pcs
        in pg_GetTeamByID db' (ID T) = Inr T
           \<and> (\<forall>T'. ID T' = ID T \<longrightarrow> pg_CreateTeam db' T' = (Some ErrAlreadyExists, db'))"
    using kept
    by (simp add: Let_def pg_GetTeamByID_def sql_select_team_def pg_CreateTeam_def
          sql_insert_team_def)
qed

text \<open>
  The witness creates team \<open>g\<close> in the example state of either store, lets \<open>b@x\<close>
  join it and a second team be created, and then reads \<open>g\<close> back and tries to create
  it again under another name.
\<close>

theorem created_team_is_kept_verbatim_witness:
  "(let s' = run_calls (snd (CreateTeam example_store \<lparr>ID = ''g'', Name = ''Gophers''\<rparr>))
               [AddTeamMemberCall ''g'' ''b@x'', CreateTeamCall \<lparr>ID = ''h'', Name = ''H''\<rparr>];
        db' = pg_run_calls plain_crypt (snd (pg_CreateTeam example_db \<lparr>ID = ''g'', Name = ''Gophers''\<rparr>))
               [PgAddTeamMemberCall ''g'' ''b@x'', PgCreateTeamCall \<lparr>ID = ''h'', Name = ''H''\<rparr>]
    in fst (CreateTeam example_store \<lparr>ID = ''g'', Name = ''Gophers''\<rparr>) = None
     \<and> GetTeamByID s' ''g'' = Inr \<lparr>ID = ''g'', Name = ''Gophers''\<rparr>
     \<and> CreateTeam s' \<lparr>ID = ''g'', Name = ''Other''\<rparr> = (Some ErrAlreadyExists, s')
     \<and> fst (pg_CreateTeam example_db \<lparr>ID = ''g'', Name = ''Gophers''\<rparr>) = None
     \<and> pg_GetTeamByID db' ''g'' = Inr \<lparr>ID = ''g'', Name = ''Gophers''\<rparr>
     \<and> pg_CreateTeam db' \<lparr>ID = ''g'', Name = ''Other''\<rparr> = (Some ErrAlreadyExists, db'))"
proof -
  let ?T = "\<lparr>ID = ''g'', Name = ''Gophers''\<rparr>"
  have ok: "fst (CreateTeam example_store ?T) = None"
    by (simp add: CreateTeam_def example_store_maps)
  have pg_ok: "fst (pg_CreateTeam example_db ?T) = None"
    by (simp add: pg_CreateTeam_def sql_insert_team_def example_db_tables)
  show ?thesis
    using ok pg_ok
      created_team_is_kept_verbatim [of example_store ?T
        "[AddTeamMemberCall ''g'' ''b@x'', CreateTeamCall \<lparr>ID = ''h'', Name = ''H''\<rparr>]"
        example_db plain_crypt
        "[PgAddTeamMemberCall ''g'' ''b@x'', PgCreateTeamCall \<lparr>ID = ''h'', Name = ''H''\<rparr>]"]
    by (simp add: Let_def)
qed



text \<open>
  Claim C9 (every access to the shared maps happens under the lock). The claim holds for
  the seven methods that lock \<open>mu\<close> (lemma \<open>locked_methods_keep_discipline\<close>).
  \<open>CountTeamMembers\<close> reads \<open>teamMembers\<close> with the lock not held, in every state of
  the store.
\<close>

theorem CountTeamMembers_reads_without_lock:
  "\<not> lock_discipline Unlocked (CountTeamMembers_events s)"
  by (simp add: CountTeamMembers_events_def)

text \<open>
  Claim C10 (a failed call changes nothing). In the in-memory store each of the four
  mutating methods, when it returns an error, returns one of the three sentinel errors
  and leaves all three maps as they were before the call.
\<close>

theorem memorystore_error_leaves_store_unchanged:
  "(fst (AuthenticateOrCreateVolunteerAccount s v) \<noteq> None
      \<longrightarrow> fst (AuthenticateOrCreateVolunteerAccount s v) = Some ErrPasswordMismatch
          \<and> snd (AuthenticateOrCreateVolunteerAccount s v) = s)
   \<and> (fst (CreateTeam s t) \<noteq> None
      \<longrightarrow> fst (CreateTeam s t) = Some ErrAlreadyExists \<and> snd (CreateTeam s t) = s)
   \<and> (fst (AddTeamMember s teamID email) \<noteq> None
      \<longrightarrow> fst (AddTeamMember s teamID email) \<in> {Some ErrNotFound, Some ErrAlreadyExists}
          \<and> snd (AddTeamMember s teamID email) = s)
   \<and> (fst (RemoveTeamMember s teamID email) \<noteq> None
      \<longrightarrow> fst (RemoveTeamMember s teamID email) = Some ErrNotFound
          \<and> snd (RemoveTeamMember s teamID email) = s)"
  by (simp add: AuthenticateOrCreateVolunteerAccount_def CreateTeam_def AddTeamMember_def
        RemoveTeamMember_def Let_def split: option.splits)

theorem memorystore_error_leaves_store_unchanged_witness:
  "AuthenticateOrCreateVolunteerAccount example_store \<lparr>Email = ''a@x'', Password = ''wrong''\<rparr>
     = (Some ErrPasswordMismatch, example_store)
   \<and> CreateTeam example_store \<lparr>ID = ''t'', Name = ''other''\<rparr> = (Some ErrAlreadyExists, example_store)
   \<and> AddTeamMember example_store ''t'' ''a@x'' = (Some ErrAlreadyExists, example_store)
   \<and> AddTeamMember example_store ''t'' ''nobody@x'' = (Some ErrNotFound, example_store)
   \<and> RemoveTeamMember example_store ''t'' ''b@x'' = (Some ErrNotFound, example_store)"
proof -
  let ?v = "\<lparr>Email = ''a@x'', Password = ''wrong''\<rparr>"
  let ?t = "\<lparr>ID = ''t'', Name = ''other''\<rparr>"
  have e1: "fst (AuthenticateOrCreateVolunteerAccount example_store ?v) \<noteq> None"
    by (simp add: AuthenticateOrCreateVolunteerAccount_def example_store_maps)
  have e2: "fst (CreateTeam example_store ?t) \<noteq> None"
    by (simp add: CreateTeam_def example_store_maps)
  have e3: "fst (AddTeamMember example_store ''t'' ''a@x'') = Some ErrAlreadyExists"
    by (simp add: AddTeamMember_def example_store_maps)
  have e4: "fst (AddTeamMember example_store ''t'' ''nobody@x'') = Some ErrNotFound"
    by (simp add: AddTeamMember_def example_store_maps)
  have e5: "fst (RemoveTeamMember example_store ''t'' ''b@x'') \<noteq> None"
    by (simp add: RemoveTeamMember_def example_store_maps)
  from e1 e2 e3 e4 e5
    memorystore_error_leaves_store_unchanged [of example_store ?v ?t "''t''" "''a@x''"]
    memorystore_error_leaves_store_unchanged [of example_store ?v ?t "''t''" "''nobody@x''"]
    memorystore_error_leaves_store_unchanged [of example_store ?v ?t "''t''" "''b@x''"]
  show ?thesis
    by (simp add: prod_eq_iff)
qed

end
